theory Spec2Isabelle
  imports Complex_Main "HOL-Library.Char_ord" "HOL-Library.List_Lexorder"
begin

unbundle bit_operations_syntax

section \<open>Data model\<close>

text \<open>
  A circle is the tuple \<open>(x, y, r)\<close> of Python integers that \<^verbatim>\<open>annotate.py\<close> keeps in
  its lists. Python lists are mutable objects reached through references, so the lists of
  circles live in an explicit store: an address is an index into the store, allocation
  appends a new object, and \<^verbatim>\<open>append\<close>/\<^verbatim>\<open>pop\<close> update the object in place.
\<close>

type_synonym circle = "int \<times> int \<times> int"
type_synonym addr = nat
type_synonym heap = "circle list list"

definition alloc :: "circle list \<Rightarrow> heap \<Rightarrow> addr \<times> heap" where
  "alloc xs h = (length h, h @ [xs])"

definition list_append :: "addr \<Rightarrow> circle \<Rightarrow> heap \<Rightarrow> heap" where
  "list_append a c h = h[a := h ! a @ [c]]"

definition list_pop :: "addr \<Rightarrow> heap \<Rightarrow> heap" where
  "list_pop a h = h[a := butlast (h ! a)]"

datatype error = ValueError | FileNotFoundError

section \<open>The radius\<close>

text \<open>
  \<^verbatim>\<open>int(round(math.hypot(dx, dy)))\<close> is modelled in exact arithmetic: the integer nearest
  to the square root of \<open>dx\<^sup>2 + dy\<^sup>2\<close>. The square root of an integer is never half way
  between two integers, so the rounding mode plays no part. The double-precision value of
  the source agrees with it for offsets below \<^verbatim>\<open>2**23\<close> in absolute value, which covers
  every pixel coordinate of an image window; larger offsets are outside the model.
\<close>

fun isqrt :: "nat \<Rightarrow> nat" where
  "isqrt n =
     (if n < 4 then (if n = 0 then 0 else 1)
      else let r = 2 * isqrt (n div 4)
           in if (r + 1) * (r + 1) \<le> n then r + 1 else r)"

declare isqrt.simps [simp del]

definition round_hypot :: "int \<Rightarrow> int \<Rightarrow> int" where
  "round_hypot dx dy =
     (let n = nat (dx * dx + dy * dy); r = isqrt n
      in int (if n \<le> r * r + r then r else r + 1))"

section \<open>The annotation loop of \<^verbatim>\<open>annotate_image\<close>\<close>

datatype mouse_event =
    EVENT_MOUSEMOVE | EVENT_LBUTTONDOWN | EVENT_RBUTTONDOWN | EVENT_MBUTTONDOWN
  | EVENT_LBUTTONUP | EVENT_RBUTTONUP | EVENT_MBUTTONUP
  | EVENT_LBUTTONDBLCLK | EVENT_RBUTTONDBLCLK | EVENT_MBUTTONDBLCLK
  | EVENT_MOUSEWHEEL | EVENT_MOUSEHWHEEL

text \<open>The variables of \<^verbatim>\<open>annotate_image\<close> that its callback and its loop share.\<close>

record frame =
  saved :: addr
  center :: "int \<times> int"
  drawing :: bool
  preview_radius :: int
  quit_all :: bool

text \<open>The callback \<^verbatim>\<open>on_mouse(event, x, y, flags, _userdata)\<close>; the last two are unused.\<close>

definition on_mouse :: "mouse_event \<Rightarrow> int \<Rightarrow> int \<Rightarrow> heap \<times> frame \<Rightarrow> heap \<times> frame" where
  "on_mouse event x y hs =
     (case hs of (h, s) \<Rightarrow>
        if event = EVENT_LBUTTONDOWN then
          (if \<not> drawing s then
             (h, s\<lparr>center := (x, y), preview_radius := 0, drawing := True\<rparr>)
           else
             let radius = round_hypot (x - fst (center s)) (y - snd (center s))
             in (list_append (saved s) (fst (center s), snd (center s), radius) h,
                 s\<lparr>drawing := False\<rparr>))
        else if event = EVENT_MOUSEMOVE \<and> drawing s then
          (h, s\<lparr>preview_radius := round_hypot (x - fst (center s)) (y - snd (center s))\<rparr>)
        else (h, s))"

text \<open>
  One pass of the \<^verbatim>\<open>while True\<close> loop is one tick of input: the mouse events that the
  window delivers to the callback while \<^verbatim>\<open>cv2.waitKey(20)\<close> runs, in order, and the
  number that \<^verbatim>\<open>waitKey\<close> returns (\<open>-1\<close> when no key was pressed). Drawing the picture
  changes none of the shared variables and is left out.
\<close>

record tick =
  mouse :: "(mouse_event \<times> int \<times> int) list"
  waitKey :: int

definition dispatch_mouse :: "(mouse_event \<times> int \<times> int) list \<Rightarrow> heap \<times> frame \<Rightarrow> heap \<times> frame" where
  "dispatch_mouse evs hs = foldl (\<lambda>acc ev. case ev of (e, x, y) \<Rightarrow> on_mouse e x y acc) hs evs"

datatype 'a flow = Continue 'a | Break 'a

definition handle_key :: "int \<Rightarrow> heap \<times> frame \<Rightarrow> (heap \<times> frame) flow" where
  "handle_key key hs =
     (case hs of (h, s) \<Rightarrow>
        if key = 27 then
          (if drawing s then Continue (h, s\<lparr>drawing := False\<rparr>)
           else Break (h, s\<lparr>quit_all := True\<rparr>))
        else
          let h' = (if key = 117 \<and> h ! saved s \<noteq> [] then list_pop (saved s) h else h)
          in if key = 32 then Break (h', s) else Continue (h', s))"

definition loop_body :: "tick \<Rightarrow> heap \<times> frame \<Rightarrow> (heap \<times> frame) flow" where
  "loop_body t hs = handle_key (waitKey t AND 255) (dispatch_mouse (mouse t) hs)"

text \<open>
  The loop reads ticks until a \<^verbatim>\<open>break\<close>. It returns the state at the break and the
  ticks it did not read; \<open>None\<close> says that the input ended with the loop still waiting.
\<close>

fun while_loop :: "tick list \<Rightarrow> heap \<times> frame \<Rightarrow> ((heap \<times> frame) \<times> tick list) option" where
  "while_loop [] hs = None"
| "while_loop (t # ts) hs =
     (case loop_body t hs of
        Continue hs' \<Rightarrow> while_loop ts hs'
      | Break hs' \<Rightarrow> Some (hs', ts))"


section \<open>The world of the program\<close>

text \<open>
  Strings are lists of code points; the model covers the code points below 256. \<open>files\<close>
  maps the path of a text file to its decoded text (\<^verbatim>\<open>os.path.exists\<close> is membership in
  its domain), \<open>listdir\<close> maps a folder to the names \<^verbatim>\<open>os.listdir\<close> returns, in that order,
  \<open>imread_ok\<close> says whether \<^verbatim>\<open>cv2.imread\<close> decodes the file of a path, \<open>ticks\<close> is the
  input the user will give, \<open>stdout\<close> the lines printed so far and \<open>mem\<close> the store of the
  lists. Failures of the operating system on open files (permissions, a full disk) are
  outside the model.
\<close>

record world =
  files :: "string \<rightharpoonup> string"
  listdir :: "string \<rightharpoonup> string list"
  imread_ok :: "string \<Rightarrow> bool"
  ticks :: "tick list"
  stdout :: "string list"
  mem :: heap

definition print :: "string \<Rightarrow> world \<Rightarrow> world" where
  "print msg w = w\<lparr>stdout := stdout w @ [msg]\<rparr>"

definition initial_frame :: "addr \<Rightarrow> frame" where
  "initial_frame a =
     \<lparr>saved = a, center = (-1, -1), drawing = False, preview_radius = 0, quit_all = False\<rparr>"

definition annotate_image :: "string \<Rightarrow> addr \<Rightarrow> world \<Rightarrow> ((addr \<times> bool) \<times> world) option" where
  "annotate_image img_path initial w =
     (if \<not> imread_ok w img_path then
        let (a, h) = alloc [] (mem w)
        in Some ((a, False), (print (''Cannot open image: '' @ img_path) w)\<lparr>mem := h\<rparr>)
      else
        let (a, h) = alloc (mem w ! initial) (mem w)
        in case while_loop (ticks w) (h, initial_frame a) of
             None \<Rightarrow> None
           | Some ((h', s), rest) \<Rightarrow>
               Some ((saved s, quit_all s), w\<lparr>mem := h', ticks := rest\<rparr>))"

section \<open>Text: \<^verbatim>\<open>str\<close> and \<^verbatim>\<open>int\<close>\<close>

text \<open>\<^verbatim>\<open>str.isspace\<close> on one code point below 256.\<close>

definition isspace :: "char \<Rightarrow> bool" where
  "isspace c = ((of_char c :: nat) \<in> {9, 10, 11, 12, 13, 28, 29, 30, 31, 32, 133, 160})"

definition strip :: "string \<Rightarrow> string" where
  "strip s = rev (dropWhile isspace (rev (dropWhile isspace s)))"

definition replace :: "char \<Rightarrow> char \<Rightarrow> string \<Rightarrow> string" where
  "replace old new s = map (\<lambda>c. if c = old then new else c) s"

text \<open>
  \<^verbatim>\<open>str.split()\<close> with no argument: the maximal runs of characters that are not white
  space. The first argument is the run read so far.
\<close>

fun split_acc :: "string \<Rightarrow> string \<Rightarrow> string list" where
  "split_acc cur [] = (if cur = [] then [] else [cur])"
| "split_acc cur (c # cs) =
     (if isspace c then (if cur = [] then split_acc [] cs else cur # split_acc [] cs)
      else split_acc (cur @ [c]) cs)"

definition split :: "string \<Rightarrow> string list" where
  "split s = split_acc [] s"

definition isdigit :: "char \<Rightarrow> bool" where
  "isdigit c = (48 \<le> (of_char c :: nat) \<and> (of_char c :: nat) \<le> 57)"

definition digit_val :: "char \<Rightarrow> int" where
  "digit_val c = int (of_char c) - 48"

text \<open>
  \<^verbatim>\<open>int(s)\<close> in base ten on a string without white space: an optional sign, then digits,
  where a single underscore may stand between two digits. \<open>None\<close> is the ValueError.
\<close>

fun int_digits :: "int \<Rightarrow> string \<Rightarrow> int option" where
  "int_digits acc [] = Some acc"
| "int_digits acc [c] = (if isdigit c then Some (10 * acc + digit_val c) else None)"
| "int_digits acc (c # d # cs) =
     (if isdigit c then int_digits (10 * acc + digit_val c) (d # cs)
      else if c = CHR ''_'' \<and> isdigit d then int_digits (10 * acc + digit_val d) cs
      else None)"

definition int_unsigned :: "string \<Rightarrow> int option" where
  "int_unsigned s =
     (case s of [] \<Rightarrow> None
      | c # cs \<Rightarrow> if isdigit c then int_digits (digit_val c) cs else None)"

definition py_int :: "string \<Rightarrow> int option" where
  "py_int s =
     (case s of
        [] \<Rightarrow> None
      | c # cs \<Rightarrow>
          if c = CHR ''-'' then map_option uminus (int_unsigned cs)
          else if c = CHR ''+'' then int_unsigned cs
          else int_unsigned s)"

text \<open>
  \<^verbatim>\<open>str(n)\<close>, as the f-string of \<^verbatim>\<open>write_csv\<close> formats an integer. The interpreter's
  limit on the number of digits of a conversion between \<^verbatim>\<open>int\<close> and \<^verbatim>\<open>str\<close> is not
  modelled.
\<close>

fun digits :: "nat \<Rightarrow> string" where
  "digits n = (if n < 10 then [char_of (48 + n)] else digits (n div 10) @ [char_of (48 + n mod 10)])"

declare digits.simps [simp del]

definition py_str :: "int \<Rightarrow> string" where
  "py_str i = (if i < 0 then CHR ''-'' # digits (nat (- i)) else digits (nat i))"

section \<open>The annotation files\<close>

text \<open>
  A text file opened for reading translates \<^verbatim>\<open>\r\n\<close> and \<^verbatim>\<open>\r\<close> to \<^verbatim>\<open>\n\<close>, and iterating
  over it yields the lines, each with its \<^verbatim>\<open>\n\<close> (the last line may have none). Writing
  is as on POSIX, where \<^verbatim>\<open>\n\<close> is written as it is.
\<close>

fun universal_newlines :: "string \<Rightarrow> string" where
  "universal_newlines [] = []"
| "universal_newlines [c] = (if c = CHR 0x0D then [CHR 0x0A] else [c])"
| "universal_newlines (c # d # cs) =
     (if c = CHR 0x0D \<and> d = CHR 0x0A then CHR 0x0A # universal_newlines cs
      else if c = CHR 0x0D then CHR 0x0A # universal_newlines (d # cs)
      else c # universal_newlines (d # cs))"

fun lines_acc :: "string \<Rightarrow> string \<Rightarrow> string list" where
  "lines_acc cur [] = (if cur = [] then [] else [cur])"
| "lines_acc cur (c # cs) =
     (if c = CHR 0x0A then (cur @ [c]) # lines_acc [] cs else lines_acc (cur @ [c]) cs)"

definition file_lines :: "string \<Rightarrow> string list" where
  "file_lines text = lines_acc [] (universal_newlines text)"

text \<open>
  One line of \<^verbatim>\<open>read_csv\<close>: \<open>Inr None\<close> is the \<^verbatim>\<open>continue\<close>, \<open>Inl ValueError\<close> the
  exception of \<^verbatim>\<open>int\<close> on a part that is not an integer.
\<close>

definition parse_line :: "string \<Rightarrow> error + circle option" where
  "parse_line line =
     (let parts = split (replace (CHR '','') (CHR '' '') (strip line))
      in if length parts \<noteq> 3 then Inr None
         else case map py_int parts of
                [Some x, Some y, Some r] \<Rightarrow> Inr (Some (x, y, r))
              | _ \<Rightarrow> Inl ValueError)"

fun read_lines :: "string list \<Rightarrow> circle list \<Rightarrow> error + circle list" where
  "read_lines [] circles = Inr circles"
| "read_lines (line # ls) circles =
     (case parse_line line of
        Inl e \<Rightarrow> Inl e
      | Inr None \<Rightarrow> read_lines ls circles
      | Inr (Some c) \<Rightarrow> read_lines ls (circles @ [c]))"

text \<open>
  \<^verbatim>\<open>read_csv\<close> builds its list in a local variable that nothing else refers to before
  the return, so the list is allocated with its final content.
\<close>

definition read_csv :: "string \<Rightarrow> world \<Rightarrow> error + (addr \<times> world)" where
  "read_csv path w =
     (case files w path of
        None \<Rightarrow> (let (a, h) = alloc [] (mem w) in Inr (a, w\<lparr>mem := h\<rparr>))
      | Some text \<Rightarrow>
          (case read_lines (file_lines text) [] of
             Inl e \<Rightarrow> Inl e
           | Inr circles \<Rightarrow> (let (a, h) = alloc circles (mem w) in Inr (a, w\<lparr>mem := h\<rparr>))))"

definition csv_line :: "circle \<Rightarrow> string" where
  "csv_line c =
     (case c of (x, y, r) \<Rightarrow>
        py_str x @ '','' @ py_str y @ '','' @ py_str r @ [CHR 0x0A])"

definition write_csv :: "string \<Rightarrow> addr \<Rightarrow> world \<Rightarrow> world" where
  "write_csv path circles w = w\<lparr>files := (files w)(path \<mapsto> concat (map csv_line (mem w ! circles)))\<rparr>"

section \<open>Paths and the folder\<close>

text \<open>\<^verbatim>\<open>str.lower\<close> on one code point below 256.\<close>

definition lower_char :: "char \<Rightarrow> char" where
  "lower_char c =
     (let n = (of_char c :: nat)
      in if (65 \<le> n \<and> n \<le> 90) \<or> (192 \<le> n \<and> n \<le> 222 \<and> n \<noteq> 215) then char_of (n + 32) else c)"

definition lower :: "string \<Rightarrow> string" where
  "lower s = map lower_char s"

text \<open>\<^verbatim>\<open>str.rfind\<close> of one character: the last index where it stands, or \<open>-1\<close>.\<close>

definition rfind :: "char \<Rightarrow> string \<Rightarrow> int" where
  "rfind c s =
     (if c \<in> set s then int (length s) - 1 - int (length (takeWhile (\<lambda>d. d \<noteq> c) (rev s)))
      else - 1)"

text \<open>
  \<^verbatim>\<open>os.path.splitext\<close> (POSIX): the extension starts at the last dot of the last path
  component, unless only dots stand before it in that component.
\<close>

definition splitext :: "string \<Rightarrow> string \<times> string" where
  "splitext p =
     (let sepIndex = rfind (CHR ''/'') p; dotIndex = rfind (CHR ''.'') p
      in if dotIndex > sepIndex \<and>
            list_ex (\<lambda>c. c \<noteq> CHR ''.'') (take (nat (dotIndex - (sepIndex + 1))) (drop (nat (sepIndex + 1)) p))
         then (take (nat dotIndex) p, drop (nat dotIndex) p)
         else (p, []))"

text \<open>\<^verbatim>\<open>os.path.join\<close> (POSIX) of two parts.\<close>

definition path_join :: "string \<Rightarrow> string \<Rightarrow> string" where
  "path_join a b =
     (if b \<noteq> [] \<and> hd b = CHR ''/'' then b
      else if a = [] \<or> last a = CHR ''/'' then a @ b
      else a @ ''/'' @ b)"

definition isdir :: "world \<Rightarrow> string \<Rightarrow> bool" where
  "isdir w folder = (listdir w folder \<noteq> None)"

definition list_images :: "string \<Rightarrow> world \<Rightarrow> error + string list" where
  "list_images folder w =
     (case listdir w folder of
        None \<Rightarrow> Inl FileNotFoundError
      | Some names \<Rightarrow>
          Inr (sort (filter (\<lambda>name. snd (splitext (lower name)) \<in> {''.jpg'', ''.jpeg'', ''.png''}) names)))"

section \<open>The driver\<close>

definition DATASET_DIR_DEFAULT :: string where
  "DATASET_DIR_DEFAULT = ''../dataset3''"

text \<open>
  \<^verbatim>\<open>parse_args\<close>: the loop over \<^verbatim>\<open>argv\<close> with its three variables and the lines it
  prints. \<^verbatim>\<open>single\<close> starts as \<^verbatim>\<open>None\<close>.
\<close>

fun parse_loop ::
  "string list \<Rightarrow> string \<times> string option \<times> bool \<times> string list \<Rightarrow> string \<times> string option \<times> bool \<times> string list"
where
  "parse_loop [] acc = acc"
| "parse_loop [arg] (dataset, single, show_help, out) =
     (if arg = ''-h'' \<or> arg = ''--help'' then (dataset, single, True, out)
      else (dataset, single, True, out @ [''Unknown argument: '' @ arg]))"
| "parse_loop (arg # v # rest) (dataset, single, show_help, out) =
     (if arg = ''-h'' \<or> arg = ''--help'' then parse_loop (v # rest) (dataset, single, True, out)
      else if arg = ''--dataset'' then parse_loop rest (v, single, show_help, out)
      else if arg = ''--single'' then parse_loop rest (dataset, Some v, show_help, out)
      else parse_loop (v # rest) (dataset, single, True, out @ [''Unknown argument: '' @ arg]))"

definition parse_args :: "string list \<Rightarrow> string \<times> string option \<times> bool \<times> string list" where
  "parse_args argv = parse_loop argv (DATASET_DIR_DEFAULT, None, False, [])"

definition help_text :: "string \<Rightarrow> string" where
  "help_text prog =
     ''Usage: '' @ prog @ '' [--dataset <path>] [--single <imgname>] [--help]'' @ [CHR 0x0A] @
     ''Controls:'' @ [CHR 0x0A] @
     ''  Left click: set center / confirm radius'' @ [CHR 0x0A] @
     ''  Move mouse: adjust radius when in drawing mode'' @ [CHR 0x0A] @
     ''  u: undo last circle'' @ [CHR 0x0A] @
     ''  Space: save current image and advance'' @ [CHR 0x0A] @
     ''  ESC: if drawing, cancel the circle; otherwise quit'' @ [CHR 0x0A]"

definition csv_path_of :: "string \<Rightarrow> string \<Rightarrow> string" where
  "csv_path_of dataset_dir img_name = path_join dataset_dir (fst (splitext img_name) @ ''.csv'')"

text \<open>
  \<^verbatim>\<open>annotate_and_save\<close>, the closure of \<^verbatim>\<open>main\<close> over \<^verbatim>\<open>dataset_dir\<close>. \<open>None\<close>: the loop
  of \<^verbatim>\<open>annotate_image\<close> is still waiting; \<open>Some (Inl e)\<close>: an exception leaves it.
\<close>

definition annotate_and_save :: "string \<Rightarrow> string \<Rightarrow> world \<Rightarrow> (error + (bool \<times> world)) option" where
  "annotate_and_save dataset_dir img_name w =
     (let csv_path = csv_path_of dataset_dir img_name
      in case read_csv csv_path w of
           Inl e \<Rightarrow> Some (Inl e)
         | Inr (existing, w1) \<Rightarrow>
             (let w2 = print (''Annotating '' @ img_name @
                  '' (click center, drag radius, click again; space=next, ESC=quit/cancel, u=undo)'') w1
              in case annotate_image (path_join dataset_dir img_name) existing w2 of
                   None \<Rightarrow> None
                 | Some ((circles, q), w3) \<Rightarrow>
                     (let w4 = write_csv csv_path circles w3;
                          w5 = print (''Saved '' @ py_str (int (length (mem w4 ! circles))) @
                                 '' circles to '' @ csv_path) w4
                      in Some (Inr (q, w5)))))"

text \<open>The \<^verbatim>\<open>for name in images\<close> loop of \<^verbatim>\<open>main\<close>.\<close>

fun for_images :: "string \<Rightarrow> string list \<Rightarrow> world \<Rightarrow> (error + world) option" where
  "for_images dataset_dir [] w = Some (Inr w)"
| "for_images dataset_dir (name # names) w =
     (case annotate_and_save dataset_dir name w of
        None \<Rightarrow> None
      | Some (Inl e) \<Rightarrow> Some (Inl e)
      | Some (Inr (q, w')) \<Rightarrow> if q then Some (Inr w') else for_images dataset_dir names w')"

text \<open>
  \<^verbatim>\<open>main\<close>, with \<^verbatim>\<open>sys.argv[0]\<close> and \<^verbatim>\<open>sys.argv[1:]\<close> as arguments. \<^verbatim>\<open>if target\<close> is the
  truth value of \<^verbatim>\<open>None\<close> or of a string: false for \<^verbatim>\<open>None\<close> and for the empty string.
\<close>

definition truthy :: "string option \<Rightarrow> bool" where
  "truthy target = (case target of None \<Rightarrow> False | Some t \<Rightarrow> t \<noteq> [])"

definition main :: "string \<Rightarrow> string list \<Rightarrow> world \<Rightarrow> (error + world) option" where
  "main prog argv w =
     (let (dataset_dir, target, want_help, out) = parse_args argv;
          w0 = w\<lparr>stdout := stdout w @ out\<rparr>
      in if want_help then Some (Inr (print (help_text prog) w0))
         else if \<not> isdir w0 dataset_dir then
           Some (Inr (print (''Dataset folder not found: '' @ dataset_dir) w0))
         else
           (case list_images dataset_dir w0 of
              Inl e \<Rightarrow> Some (Inl e)
            | Inr images \<Rightarrow>
                if images = [] then Some (Inr (print (''No images found in '' @ dataset_dir) w0))
                else if truthy target \<and> the target \<notin> set images then
                  Some (Inr (print (the target @ '' not found in '' @ dataset_dir) w0))
                else if truthy target then
                  (case annotate_and_save dataset_dir (the target) w0 of
                     None \<Rightarrow> None
                   | Some (Inl e) \<Rightarrow> Some (Inl e)
                   | Some (Inr (q, w')) \<Rightarrow> Some (Inr w'))
                else for_images dataset_dir images w0))"

section \<open>Inputs and auxiliary notions for the statements\<close>

text \<open>
  The mouse events of a run of commits: for each circle the press that fixes the center
  and the press that confirms the radius.
\<close>

definition commits :: "((int \<times> int) \<times> (int \<times> int)) list \<Rightarrow> (mouse_event \<times> int \<times> int) list" where
  "commits cs =
     concat (map (\<lambda>(c, p). [(EVENT_LBUTTONDOWN, fst c, snd c), (EVENT_LBUTTONDOWN, fst p, snd p)]) cs)"



text \<open>A folder with one image that does not decode and an annotation file from before.\<close>

definition unreadable_world :: world where
  "unreadable_world =
     \<lparr>files = [''d/a.csv'' \<mapsto> ''1,2,3\<newline>''],
      listdir = [''d'' \<mapsto> [''a.png'']],
      imread_ok = (\<lambda>p. False),
      ticks = [],
      stdout = [],
      mem = []\<rparr>"

text \<open>An annotation file that starts with a header line.\<close>

definition header_world :: world where
  "header_world =
     \<lparr>files = [''d/a.csv'' \<mapsto> ''x,y,r\<newline>10,20,30\<newline>''],
      listdir = [''d'' \<mapsto> [''a.png'']],
      imread_ok = (\<lambda>p. True),
      ticks = [],
      stdout = [],
      mem = []\<rparr>"

text \<open>A folder with one image, no annotation file, and the finish key as the only input.\<close>

definition finish_world :: world where
  "finish_world =
     \<lparr>files = Map.empty,
      listdir = [''d'' \<mapsto> [''a.png'']],
      imread_ok = (\<lambda>p. True),
      ticks = [\<lparr>mouse = [], waitKey = 32\<rparr>],
      stdout = [],
      mem = []\<rparr>"


text \<open>
  A store with one list of one circle; the user draws a second circle (press, move, press)
  and presses the finish key.
\<close>

definition draw_world :: world where
  "draw_world =
     \<lparr>files = Map.empty,
      listdir = [''d'' \<mapsto> [''a.png'']],
      imread_ok = (\<lambda>p. True),
      ticks = [\<lparr>mouse = [(EVENT_LBUTTONDOWN, 100, 100), (EVENT_MOUSEMOVE, 100, 150)], waitKey = - 1\<rparr>,
               \<lparr>mouse = [(EVENT_LBUTTONDOWN, 100, 150)], waitKey = 32\<rparr>],
      stdout = [],
      mem = [[(1, 2, 3)]]\<rparr>"

section \<open>The radius is the rounded distance\<close>




lemma round_hypot_0_50: "round_hypot 0 50 = 50"
  by code_simp

lemma round_hypot_3_4: "round_hypot 3 4 = 5"
  by code_simp

section \<open>What the loop keeps\<close>

text \<open>
  The callback and the key handling write to one object only, the list that \<open>saved\<close>
  refers to; the reference itself never changes, and no object is created.
\<close>

lemma on_mouse_keeps:
  "on_mouse e x y (h, s) = (h', s') \<Longrightarrow>
     saved s' = saved s \<and> quit_all s' = quit_all s \<and> length h' = length h \<and>
     (\<forall>i. i \<noteq> saved s \<longrightarrow> h' ! i = h ! i)"
  by (auto simp: on_mouse_def list_append_def Let_def split: if_splits)

lemma dispatch_mouse_keeps:
  "dispatch_mouse evs (h, s) = (h', s') \<Longrightarrow>
     saved s' = saved s \<and> quit_all s' = quit_all s \<and> length h' = length h \<and>
     (\<forall>i. i \<noteq> saved s \<longrightarrow> h' ! i = h ! i)"
proof (induction evs arbitrary: h s)
  case Nil
  then show ?case by (simp add: dispatch_mouse_def)
next
  case (Cons ev evs)
  obtain e x y where ev: "ev = (e, x, y)" by (cases ev) auto
  obtain h1 s1 where st: "on_mouse e x y (h, s) = (h1, s1)" by (cases "on_mouse e x y (h, s)") auto
  from Cons.prems have "dispatch_mouse evs (h1, s1) = (h', s')"
    by (simp add: dispatch_mouse_def ev st)
  from Cons.IH [OF this] on_mouse_keeps [OF st] show ?case by simp
qed

lemma dispatch_mouse_append:
  "dispatch_mouse (evs @ evs') hs = dispatch_mouse evs' (dispatch_mouse evs hs)"
  by (simp add: dispatch_mouse_def)


lemma handle_key_keeps:
  "handle_key k (h, s) = r \<Longrightarrow> r = Continue (h', s') \<or> r = Break (h', s') \<Longrightarrow>
     saved s' = saved s \<and> length h' = length h \<and>
     (\<forall>i. i \<noteq> saved s \<longrightarrow> h' ! i = h ! i)"
  by (auto simp: handle_key_def list_pop_def Let_def split: if_splits)



lemma loop_body_keeps:
  assumes "loop_body t (h, s) = r" "r = Continue (h', s') \<or> r = Break (h', s')"
  shows "saved s' = saved s \<and> length h' = length h \<and> (\<forall>i. i \<noteq> saved s \<longrightarrow> h' ! i = h ! i)"
proof -
  obtain h1 s1 where d: "dispatch_mouse (mouse t) (h, s) = (h1, s1)"
    by (cases "dispatch_mouse (mouse t) (h, s)") auto
  from assms have "handle_key (waitKey t AND 255) (h1, s1) = r" by (simp add: loop_body_def d)
  from handle_key_keeps [OF this assms(2)] dispatch_mouse_keeps [OF d] show ?thesis by simp
qed

lemma while_loop_keeps:
  "while_loop ts (h, s) = Some ((h', s'), rest) \<Longrightarrow>
     saved s' = saved s \<and> length h' = length h \<and> (\<forall>i. i \<noteq> saved s \<longrightarrow> h' ! i = h ! i)"
proof (induction ts arbitrary: h s)
  case Nil
  then show ?case by simp
next
  case (Cons t ts)
  show ?case
  proof (cases "loop_body t (h, s)")
    case (Continue hs1)
    obtain h1 s1 where hs1: "hs1 = (h1, s1)" by (cases hs1) auto
    from Cons.prems Continue hs1 have "while_loop ts (h1, s1) = Some ((h', s'), rest)" by simp
    from Cons.IH [OF this] loop_body_keeps [OF Continue, of h1 s1] hs1 show ?thesis by simp
  next
    case (Break hs1)
    with Cons.prems have "hs1 = (h', s')" by simp
    with loop_body_keeps [OF Break, of h' s'] show ?thesis by simp
  qed
qed

section \<open>When the loop ends\<close>








section \<open>Commits\<close>

lemma commit_pair:
  assumes "\<not> drawing s" "saved s < length h"
  shows "\<exists>s'. dispatch_mouse [(EVENT_LBUTTONDOWN, cx, cy), (EVENT_LBUTTONDOWN, px, py)] (h, s) =
           (h[saved s := h ! saved s @ [(cx, cy, round_hypot (px - cx) (py - cy))]], s') \<and>
           \<not> drawing s' \<and> saved s' = saved s"
  using assms by (simp add: dispatch_mouse_def on_mouse_def list_append_def Let_def)

lemma commits_idle:
  assumes "\<not> drawing s" "saved s < length h"
  shows "\<exists>h' s'. dispatch_mouse (commits cs) (h, s) = (h', s') \<and> \<not> drawing s' \<and>
           saved s' = saved s \<and> length h' = length h"
  using assms
proof (induction cs arbitrary: h s)
  case Nil
  then show ?case by (simp add: commits_def dispatch_mouse_def)
next
  case (Cons c cs)
  obtain cx cy px py where c: "c = ((cx, cy), (px, py))" by (cases c) auto
  from commit_pair [OF Cons.prems, of cx cy px py] obtain s1 where
    s1: "dispatch_mouse [(EVENT_LBUTTONDOWN, cx, cy), (EVENT_LBUTTONDOWN, px, py)] (h, s) =
           (h[saved s := h ! saved s @ [(cx, cy, round_hypot (px - cx) (py - cy))]], s1)"
      "\<not> drawing s1" "saved s1 = saved s" by blast
  let ?h1 = "h[saved s := h ! saved s @ [(cx, cy, round_hypot (px - cx) (py - cy))]]"
  have split: "dispatch_mouse (commits (c # cs)) (h, s) = dispatch_mouse (commits cs) (?h1, s1)"
    using s1(1) dispatch_mouse_append [of "[(EVENT_LBUTTONDOWN, cx, cy), (EVENT_LBUTTONDOWN, px, py)]" "commits cs" "(h, s)"]
    by (simp add: commits_def c)
  from Cons.prems s1 have "saved s1 < length ?h1" by simp
  from Cons.IH [OF s1(2) this] s1(3) split show ?case by auto
qed

section \<open>What reading and annotating leave alone\<close>

lemma read_csv_frame:
  "read_csv path w = Inr (a, w1) \<Longrightarrow>
     files w1 = files w \<and> listdir w1 = listdir w \<and> imread_ok w1 = imread_ok w \<and>
     ticks w1 = ticks w \<and> stdout w1 = stdout w"
  by (auto simp: read_csv_def alloc_def split: option.splits sum.splits)


lemma list_images_stdout: "list_images d (w\<lparr>stdout := out\<rparr>) = list_images d w"
  by (simp add: list_images_def)

section \<open>Writing a number and reading it back\<close>













section \<open>Writing lines and reading them back\<close>















section \<open>Values on the example inputs\<close>

lemma csv_path_example: "csv_path_of ''d'' ''a.png'' = ''d/a.csv''"
  by code_simp

lemma join_example: "path_join ''d'' ''a.png'' = ''d/a.png''"
  by code_simp

lemma ext_example: "snd (splitext (lower ''a.png'')) = ''.png''"
  by code_simp

lemma py_str_0: "py_str 0 = ''0''"
  by code_simp

lemma lines_example: "read_lines (file_lines ''1,2,3\<newline>'') [] = Inr [(1, 2, 3)]"
  by code_simp

lemma header_lines: "read_lines (file_lines ''x,y,r\<newline>10,20,30\<newline>'') [] = Inl ValueError"
  by code_simp

lemma parse_empty_single:
  "parse_args [''--dataset'', ''d'', ''--single'', ''''] = (''d'', Some '''', False, [])"
  by code_simp

lemma parse_missing_single:
  "parse_args [''--dataset'', ''d'', ''--single'', ''missing.png''] = (''d'', Some ''missing.png'', False, [])"
  by code_simp

section \<open>The claims about the annotation loop\<close>

text \<open>
  C10. \<^verbatim>\<open>annotate_image\<close> never changes the list it is given: when it returns, the object
  at the address \<open>initial\<close> holds what it held at the call, and the list it returns is
  another object, because \<^verbatim>\<open>saved = list(initial)\<close> is a copy and every \<^verbatim>\<open>append\<close>
  and \<^verbatim>\<open>pop\<close> goes to that copy.
\<close>

theorem annotate_image_keeps_initial:
  assumes "annotate_image img_path initial w = Some ((circles, q), w')"
    and "initial < length (mem w)"
  shows "mem w' ! initial = mem w ! initial \<and> circles \<noteq> initial"
proof (cases "imread_ok w img_path")
  case False
  with assms show ?thesis
    by (auto simp: annotate_image_def alloc_def print_def nth_append)
next
  case True
  let ?a = "length (mem w)"
  let ?h = "mem w @ [mem w ! initial]"
  from assms(1) True obtain h' s rest where
    loop: "while_loop (ticks w) (?h, initial_frame ?a) = Some ((h', s), rest)"
    and res: "circles = saved s" "w' = w\<lparr>mem := h', ticks := rest\<rparr>"
    by (auto simp: annotate_image_def alloc_def split: option.splits)
  from while_loop_keeps [OF loop] have
    k: "saved s = ?a" "\<forall>i. i \<noteq> ?a \<longrightarrow> h' ! i = ?h ! i"
    by (simp_all add: initial_frame_def)
  from k(2) assms(2) have "h' ! initial = ?h ! initial" by simp
  with assms(2) res k(1) show ?thesis by (simp add: nth_append)
qed

text \<open>
  Witness for C10: a second circle is drawn on top of a list of one; the list of the
  caller still has its one circle.
\<close>

theorem annotate_image_keeps_initial_witness:
  "annotate_image ''d/a.png'' 0 draw_world =
     Some ((1, False), draw_world\<lparr>mem := [[(1, 2, 3)], [(1, 2, 3), (100, 100, 50)]], ticks := []\<rparr>) \<and>
   0 < length (mem draw_world) \<and>
   mem (draw_world\<lparr>mem := [[(1, 2, 3)], [(1, 2, 3), (100, 100, 50)]], ticks := []\<rparr>) ! 0 = mem draw_world ! 0 \<and>
   (1::nat) \<noteq> 0"
proof -
  have run: "annotate_image ''d/a.png'' 0 draw_world =
     Some ((1, False), draw_world\<lparr>mem := [[(1, 2, 3)], [(1, 2, 3), (100, 100, 50)]], ticks := []\<rparr>)"
    by (simp add: annotate_image_def draw_world_def alloc_def initial_frame_def loop_body_def
        dispatch_mouse_def on_mouse_def handle_key_def list_append_def Let_def round_hypot_0_50)
  have valid: "0 < length (mem draw_world)" by (simp add: draw_world_def)
  from annotate_image_keeps_initial [OF run valid] run valid show ?thesis by simp
qed



text \<open>
  C9. The undo key is not restricted to the idle state: when it arrives while a circle is
  being drawn, the last committed circle is removed from the store (nothing is removed
  from an empty store), the loop goes on, and the center, the live radius and the drawing
  flag of the circle in progress stay as they are.
\<close>

theorem undo_while_drawing:
  assumes "dispatch_mouse (mouse t) hs = (h, s)" "drawing s" "saved s < length h"
    and "waitKey t AND 255 = 117"
  shows "loop_body t hs = Continue (h[saved s := butlast (h ! saved s)], s)"
proof (cases "h ! saved s = []")
  case True
  then have "h[saved s := butlast (h ! saved s)] = h"
    by (metis butlast.simps(1) list_update_id)
  with assms True show ?thesis by (simp add: loop_body_def handle_key_def)
next
  case False
  with assms show ?thesis by (simp add: loop_body_def handle_key_def list_pop_def)
qed

text \<open>
  Witness for C9: two circles are committed, a press at \<open>(7, 7)\<close> starts a third, and the
  undo key arrives in the same pass of the loop.
\<close>

theorem undo_while_drawing_witness:
  "dispatch_mouse (mouse \<lparr>mouse = [(EVENT_LBUTTONDOWN, 7, 7)], waitKey = 117\<rparr>)
     ([[(1, 2, 3), (4, 5, 6)]], initial_frame 0) =
     ([[(1, 2, 3), (4, 5, 6)]], \<lparr>saved = 0, center = (7, 7), drawing = True, preview_radius = 0, quit_all = False\<rparr>) \<and>
   loop_body \<lparr>mouse = [(EVENT_LBUTTONDOWN, 7, 7)], waitKey = 117\<rparr> ([[(1, 2, 3), (4, 5, 6)]], initial_frame 0) =
     Continue ([[(1, 2, 3)]], \<lparr>saved = 0, center = (7, 7), drawing = True, preview_radius = 0, quit_all = False\<rparr>)"
proof -
  let ?t = "\<lparr>mouse = [(EVENT_LBUTTONDOWN, 7, 7)], waitKey = 117\<rparr>"
  let ?s = "\<lparr>saved = 0, center = (7, 7), drawing = True, preview_radius = 0, quit_all = False\<rparr>"
  have d: "dispatch_mouse (mouse ?t) ([[(1, 2, 3), (4, 5, 6)]], initial_frame 0) = ([[(1, 2, 3), (4, 5, 6)]], ?s)"
    by (simp add: dispatch_mouse_def on_mouse_def initial_frame_def)
  have dr: "drawing ?s" by simp
  have v: "saved ?s < length [[(1, 2, 3), (4, 5, 6)] :: circle list]" by simp
  have k: "waitKey ?t AND 255 = 117" by simp
  from undo_while_drawing [OF d dr v k] d show ?thesis by simp
qed

text \<open>
  C5. In the idle state, \<open>N\<close> commits followed by the undo key leave the store that the
  first \<open>N - 1\<close> commits produce, and the loop goes on; the undo key on an empty store
  changes nothing and the loop goes on.
\<close>

theorem undo_inverts_last_commit:
  assumes "\<not> drawing s" "saved s < length h"
  shows "(cs \<noteq> [] \<longrightarrow>
           handle_key 117 (dispatch_mouse (commits cs) (h, s)) =
             Continue (fst (dispatch_mouse (commits (butlast cs)) (h, s)),
                       snd (dispatch_mouse (commits cs) (h, s)))) \<and>
         (h ! saved s = [] \<longrightarrow> handle_key 117 (h, s) = Continue (h, s))"
proof (intro conjI impI)
  assume "h ! saved s = []"
  then show "handle_key 117 (h, s) = Continue (h, s)" by (simp add: handle_key_def)
next
  assume "cs \<noteq> []"
  then obtain bs c where cs: "cs = bs @ [c]" by (cases cs rule: rev_cases) auto
  obtain cx cy px py where c: "c = ((cx, cy), (px, py))" by (cases c) auto
  from commits_idle [OF assms, of bs] obtain h1 s1 where
    b: "dispatch_mouse (commits bs) (h, s) = (h1, s1)" "\<not> drawing s1" "saved s1 = saved s"
       "length h1 = length h" by blast
  from b assms have v: "saved s1 < length h1" by simp
  from commit_pair [OF b(2) v, of cx cy px py] obtain s2 where
    s2: "dispatch_mouse [(EVENT_LBUTTONDOWN, cx, cy), (EVENT_LBUTTONDOWN, px, py)] (h1, s1) =
           (h1[saved s1 := h1 ! saved s1 @ [(cx, cy, round_hypot (px - cx) (py - cy))]], s2)"
      "\<not> drawing s2" "saved s2 = saved s1" by blast
  have "commits cs = commits bs @ [(EVENT_LBUTTONDOWN, cx, cy), (EVENT_LBUTTONDOWN, px, py)]"
    by (simp add: commits_def cs c)
  then have all: "dispatch_mouse (commits cs) (h, s) =
      (h1[saved s1 := h1 ! saved s1 @ [(cx, cy, round_hypot (px - cx) (py - cy))]], s2)"
    using b(1) s2(1) by (simp add: dispatch_mouse_append)
  have "handle_key 117 (h1[saved s1 := h1 ! saved s1 @ [(cx, cy, round_hypot (px - cx) (py - cy))]], s2) =
      Continue (h1, s2)"
    using v s2(2,3) by (simp add: handle_key_def list_pop_def)
  with all b(1) show "handle_key 117 (dispatch_mouse (commits cs) (h, s)) =
             Continue (fst (dispatch_mouse (commits (butlast cs)) (h, s)),
                       snd (dispatch_mouse (commits cs) (h, s)))"
    by (simp add: cs)
qed

text \<open>
  Witness for C5: on a store of one circle, two commits and the undo key leave the first
  commit; on an empty store the undo key leaves the empty store.
\<close>

theorem undo_inverts_last_commit_witness:
  "\<not> drawing (initial_frame 0) \<and> saved (initial_frame 0) < length [[(1, 2, 3)] :: circle list] \<and>
   handle_key 117 (dispatch_mouse (commits [((0, 0), (3, 4)), ((10, 10), (10, 20))]) ([[(1, 2, 3)]], initial_frame 0)) =
     Continue ([[(1, 2, 3), (0, 0, 5)]],
       \<lparr>saved = 0, center = (10, 10), drawing = False, preview_radius = 0, quit_all = False\<rparr>) \<and>
   handle_key 117 ([[]], initial_frame 0) = Continue ([[]], initial_frame 0)"
proof -
  have i: "\<not> drawing (initial_frame 0)" by (simp add: initial_frame_def)
  have v1: "saved (initial_frame 0) < length [[(1, 2, 3)] :: circle list]" by (simp add: initial_frame_def)
  have v2: "saved (initial_frame 0) < length [[] :: circle list]" by (simp add: initial_frame_def)
  have ne: "[((0, 0), (3, 4)), ((10, 10), (10, 20))] \<noteq> ([] :: ((int \<times> int) \<times> (int \<times> int)) list)" by simp
  have e: "[[] :: circle list] ! saved (initial_frame 0) = []" by (simp add: initial_frame_def)
  have one: "fst (dispatch_mouse (commits (butlast [((0, 0), (3, 4)), ((10, 10), (10, 20))])) ([[(1, 2, 3)]], initial_frame 0)) =
      [[(1, 2, 3), (0, 0, 5)]]"
    by (simp add: commits_def dispatch_mouse_def on_mouse_def list_append_def initial_frame_def Let_def
        round_hypot_3_4)
  have two: "snd (dispatch_mouse (commits [((0, 0), (3, 4)), ((10, 10), (10, 20))]) ([[(1, 2, 3)]], initial_frame 0)) =
      \<lparr>saved = 0, center = (10, 10), drawing = False, preview_radius = 0, quit_all = False\<rparr>"
    by (simp add: commits_def dispatch_mouse_def on_mouse_def list_append_def initial_frame_def Let_def)
  from undo_inverts_last_commit [OF i v1, of "[((0, 0), (3, 4)), ((10, 10), (10, 20))]"]
    undo_inverts_last_commit [OF i v2, of "[]"] ne e one two i v1
  show ?thesis by simp
qed

text \<open>
  C3, as the code has it: the finish key ends the loop in the drawing state as it does in
  the idle state. The loop returns at once with the store as it is (the circle in progress
  is not committed) and with \<open>quit_all\<close> unchanged, which is false in every run of
  \<^verbatim>\<open>annotate_image\<close>; the ticks after the key are not read.
\<close>

theorem finish_key_ends_while_drawing:
  assumes "dispatch_mouse (mouse t) hs = (h, s)" "drawing s" "waitKey t AND 255 = 32"
  shows "while_loop (t # ts) hs = Some ((h, s), ts)"
  using assms by (simp add: loop_body_def handle_key_def)

text \<open>
  Witness for C3 as amended: a press at \<open>(5, 5)\<close> starts a circle and the finish key
  arrives in the same pass.
\<close>

theorem finish_key_ends_while_drawing_witness:
  "dispatch_mouse (mouse \<lparr>mouse = [(EVENT_LBUTTONDOWN, 5, 5)], waitKey = 32\<rparr>) ([[]], initial_frame 0) =
     ([[]], \<lparr>saved = 0, center = (5, 5), drawing = True, preview_radius = 0, quit_all = False\<rparr>) \<and>
   while_loop [\<lparr>mouse = [(EVENT_LBUTTONDOWN, 5, 5)], waitKey = 32\<rparr>, \<lparr>mouse = [], waitKey = 117\<rparr>]
       ([[]], initial_frame 0) =
     Some (([[]], \<lparr>saved = 0, center = (5, 5), drawing = True, preview_radius = 0, quit_all = False\<rparr>),
           [\<lparr>mouse = [], waitKey = 117\<rparr>])"
proof -
  let ?t = "\<lparr>mouse = [(EVENT_LBUTTONDOWN, 5, 5)], waitKey = 32\<rparr>"
  let ?s = "\<lparr>saved = 0, center = (5, 5), drawing = True, preview_radius = 0, quit_all = False\<rparr>"
  have d: "dispatch_mouse (mouse ?t) ([[]], initial_frame 0) = ([[]], ?s)"
    by (simp add: dispatch_mouse_def on_mouse_def initial_frame_def)
  have dr: "drawing ?s" by simp
  have k: "waitKey ?t AND 255 = 32" by simp
  from finish_key_ends_while_drawing [OF d dr k, of "[\<lparr>mouse = [], waitKey = 117\<rparr>]"] d
  show ?thesis by simp
qed

text \<open>
  Counterexample to C3 as stated: a press at \<open>(10, 10)\<close> and a move to \<open>(13, 14)\<close> put
  the loop in the drawing state with live radius \<open>5\<close>; the finish key of the same pass
  ends the loop, and the cancel key that follows is never read.
\<close>

theorem finish_key_while_drawing_counterexample:
  "while_loop
     [\<lparr>mouse = [(EVENT_LBUTTONDOWN, 10, 10), (EVENT_MOUSEMOVE, 13, 14)], waitKey = 32\<rparr>,
      \<lparr>mouse = [], waitKey = 27\<rparr>]
     ([[]], initial_frame 0) =
   Some (([[]], \<lparr>saved = 0, center = (10, 10), drawing = True, preview_radius = 5, quit_all = False\<rparr>),
         [\<lparr>mouse = [], waitKey = 27\<rparr>])"
  by (simp add: loop_body_def dispatch_mouse_def on_mouse_def handle_key_def initial_frame_def
      round_hypot_3_4)

section \<open>The claims about the driver and the files\<close>





text \<open>
  C1, as the code has it: when the image does not decode, \<^verbatim>\<open>annotate_image\<close> prints a
  message and returns a new empty list with \<open>quit_all\<close> false, reading no input;
  \<^verbatim>\<open>annotate_and_save\<close> then writes that list, so the annotation file of the image is
  created or overwritten as the empty file, and the driver goes on to the next image.
\<close>

theorem unreadable_image_writes_empty_csv:
  assumes "\<not> imread_ok w (path_join dataset_dir name)"
    and "read_csv (csv_path_of dataset_dir name) w = Inr (existing, w1)"
  shows "annotate_image (path_join dataset_dir name) initial w =
           Some ((length (mem w), False),
                 (print (''Cannot open image: '' @ path_join dataset_dir name) w)\<lparr>mem := mem w @ [[]]\<rparr>) \<and>
         (\<exists>w'. annotate_and_save dataset_dir name w = Some (Inr (False, w')) \<and>
            files w' = (files w)(csv_path_of dataset_dir name \<mapsto> []) \<and>
            ticks w' = ticks w \<and>
            for_images dataset_dir (name # names) w = for_images dataset_dir names w')"
proof -
  from assms(1) have a: "annotate_image (path_join dataset_dir name) initial w =
           Some ((length (mem w), False),
                 (print (''Cannot open image: '' @ path_join dataset_dir name) w)\<lparr>mem := mem w @ [[]]\<rparr>)"
    by (simp add: annotate_image_def alloc_def)
  from read_csv_frame [OF assms(2)] assms(1)
  have f: "files w1 = files w" "ticks w1 = ticks w" "\<not> imread_ok w1 (path_join dataset_dir name)"
    by simp_all
  from assms(2) f have "\<exists>w'. annotate_and_save dataset_dir name w = Some (Inr (False, w')) \<and>
            files w' = (files w)(csv_path_of dataset_dir name \<mapsto> []) \<and>
            ticks w' = ticks w \<and>
            for_images dataset_dir (name # names) w = for_images dataset_dir names w'"
    by (simp add: annotate_and_save_def annotate_image_def alloc_def print_def write_csv_def Let_def)
  with a show ?thesis by blast
qed

text \<open>
  Witness for C1 as amended: the only image of the folder does not decode and has an
  annotation file with one circle; the file is empty afterwards.
\<close>

theorem unreadable_image_writes_empty_csv_witness:
  "\<not> imread_ok unreadable_world (path_join ''d'' ''a.png'') \<and>
   read_csv (csv_path_of ''d'' ''a.png'') unreadable_world = Inr (0, unreadable_world\<lparr>mem := [[(1, 2, 3)]]\<rparr>) \<and>
   (\<exists>w'. annotate_and_save ''d'' ''a.png'' unreadable_world = Some (Inr (False, w')) \<and>
      files w' = [''d/a.csv'' \<mapsto> []] \<and> ticks w' = [])"
proof -
  have h1: "\<not> imread_ok unreadable_world (path_join ''d'' ''a.png'')"
    by (simp add: unreadable_world_def)
  have h2: "read_csv (csv_path_of ''d'' ''a.png'') unreadable_world =
      Inr (0, unreadable_world\<lparr>mem := [[(1, 2, 3)]]\<rparr>)"
    by (simp add: csv_path_example read_csv_def unreadable_world_def lines_example alloc_def)
  have e: "ticks unreadable_world = []" "files unreadable_world = [''d/a.csv'' \<mapsto> ''1,2,3\<newline>'']"
    by (simp_all add: unreadable_world_def)
  from unreadable_image_writes_empty_csv [OF h1 h2, of 0 "[]"] h1 h2 e
  show ?thesis by (auto simp add: csv_path_example)
qed

text \<open>
  Counterexample to C1 as stated: the image does not decode, and its annotation file,
  which held the line \<^verbatim>\<open>1,2,3\<close>, is overwritten with the empty text.
\<close>

theorem unreadable_image_counterexample:
  "annotate_and_save ''d'' ''a.png'' unreadable_world =
     Some (Inr (False,
       unreadable_world
         \<lparr>files := [''d/a.csv'' \<mapsto> []],
          stdout := [''Annotating a.png (click center, drag radius, click again; space=next, ESC=quit/cancel, u=undo)'',
                     ''Cannot open image: d/a.png'',
                     ''Saved 0 circles to d/a.csv''],
          mem := [[(1, 2, 3)], []]\<rparr>))"
  by (simp add: annotate_and_save_def csv_path_example join_example read_csv_def lines_example
      unreadable_world_def alloc_def print_def annotate_image_def write_csv_def Let_def py_str_0)

text \<open>
  C2, at a failing input: an annotation file whose first line is the header \<^verbatim>\<open>x,y,r\<close>.
  The line has three parts, so it passes the test of the number of parts, and \<^verbatim>\<open>int\<close>
  raises ValueError on the first of them; \<^verbatim>\<open>read_csv\<close> does not return a list.
\<close>

theorem read_csv_raises_on_words:
  "read_csv ''d/a.csv'' header_world = Inl ValueError"
  by (simp add: read_csv_def header_world_def header_lines)

text \<open>
  C8, as the code has it: with a name that is not empty and not among the images of the
  folder, \<^verbatim>\<open>main\<close> returns without an exception, writes no file, reads no input and
  creates no list; when help is not asked for and the folder exists and holds an image,
  all it does is print the message that the name was not found.
\<close>

theorem missing_target_writes_nothing:
  assumes "parse_args argv = (dataset_dir, Some target, want_help, out)"
    and "target \<noteq> []"
    and "\<forall>images. list_images dataset_dir w = Inr images \<longrightarrow> target \<notin> set images"
  shows "(\<exists>w'. main prog argv w = Some (Inr w') \<and> files w' = files w \<and> ticks w' = ticks w \<and>
            mem w' = mem w) \<and>
         (\<not> want_help \<and> (\<exists>images. list_images dataset_dir w = Inr images \<and> images \<noteq> []) \<longrightarrow>
            main prog argv w =
              Some (Inr (w\<lparr>stdout := stdout w @ out @ [target @ '' not found in '' @ dataset_dir]\<rparr>)))"
proof -
  let ?w0 = "w\<lparr>stdout := stdout w @ out\<rparr>"
  have li: "list_images dataset_dir ?w0 = list_images dataset_dir w" by (rule list_images_stdout)
  have dir: "isdir ?w0 dataset_dir = (listdir w dataset_dir \<noteq> None)" by (simp add: isdir_def)
  have tr: "truthy (Some target)" using assms(2) by (simp add: truthy_def)
  show ?thesis
  proof (cases "want_help \<or> listdir w dataset_dir = None")
    case True
    with assms(1) show ?thesis
      by (auto simp: main_def Let_def dir print_def list_images_def)
  next
    case False
    then obtain names where n: "listdir w dataset_dir = Some names" by auto
    then obtain images where im: "list_images dataset_dir w = Inr images"
      by (simp add: list_images_def)
    with assms(3) have notin: "target \<notin> set images" by simp
    from False assms(1) n im notin tr show ?thesis
      by (simp add: main_def Let_def dir li print_def)
  qed
qed

text \<open>
  Witness for C8 as amended: the folder holds \<^verbatim>\<open>a.png\<close> only and the name asked for is
  \<^verbatim>\<open>missing.png\<close>.
\<close>

theorem missing_target_writes_nothing_witness:
  "parse_args [''--dataset'', ''d'', ''--single'', ''missing.png''] = (''d'', Some ''missing.png'', False, []) \<and>
   ''missing.png'' \<noteq> [] \<and>
   list_images ''d'' finish_world = Inr [''a.png''] \<and>
   ''missing.png'' \<notin> set [''a.png''] \<and>
   main ''annotate.py'' [''--dataset'', ''d'', ''--single'', ''missing.png''] finish_world =
     Some (Inr (finish_world\<lparr>stdout := [''missing.png not found in d'']\<rparr>))"
proof -
  have h1: "parse_args [''--dataset'', ''d'', ''--single'', ''missing.png''] =
      (''d'', Some ''missing.png'', False, [])" by (rule parse_missing_single)
  have h2: "''missing.png'' \<noteq> []" by simp
  have li: "list_images ''d'' finish_world = Inr [''a.png'']"
    by (simp add: list_images_def finish_world_def ext_example)
  have h3: "\<forall>images. list_images ''d'' finish_world = Inr images \<longrightarrow> ''missing.png'' \<notin> set images"
    by (simp add: li)
  have e: "stdout finish_world = []" by (simp add: finish_world_def)
  from missing_target_writes_nothing [OF h1 h2 h3, of "''annotate.py''"] h1 li e
  show ?thesis by simp
qed

text \<open>
  Counterexample to C8 as stated: the name given with \<^verbatim>\<open>--single\<close> is the empty string,
  which is not the name of an image; \<^verbatim>\<open>main\<close> annotates the whole folder and writes the
  annotation file of \<^verbatim>\<open>a.png\<close>.
\<close>

theorem empty_single_name_counterexample:
  "main ''annotate.py'' [''--dataset'', ''d'', ''--single'', ''''] finish_world =
     Some (Inr (finish_world
       \<lparr>files := [''d/a.csv'' \<mapsto> []],
        ticks := [],
        stdout := [''Annotating a.png (click center, drag radius, click again; space=next, ESC=quit/cancel, u=undo)'',
                   ''Saved 0 circles to d/a.csv''],
        mem := [[], []]\<rparr>))"
  by (simp add: main_def parse_empty_single isdir_def list_images_def ext_example truthy_def
      annotate_and_save_def csv_path_example join_example read_csv_def
      finish_world_def alloc_def print_def annotate_image_def write_csv_def Let_def py_str_0
      loop_body_def handle_key_def dispatch_mouse_def initial_frame_def)

end
